theory Spec2Isabelle
  imports Main
begin

section \<open>gulp-watch: the glob-to-event correlation engine of index.js\<close>

text \<open>
  The development embeds \<^verbatim>\<open>src/index.js\<close>: the argument check \<^verbatim>\<open>normalizeGlobs\<close>, the
  constructor \<^verbatim>\<open>watch\<close> with its closures \<^verbatim>\<open>resolveFilepath\<close>, \<^verbatim>\<open>resolveGlob\<close>,
  \<^verbatim>\<open>processEvent\<close>, \<^verbatim>\<open>write\<close>, \<^verbatim>\<open>log\<close>, and the methods \<^verbatim>\<open>add\<close>, \<^verbatim>\<open>close\<close> and
  \<^verbatim>\<open>_write\<close> of the output stream. The method \<^verbatim>\<open>unwatch\<close> is the watcher's own and is
  not modelled.

  The bindings declared with \<^verbatim>\<open>const\<close>. The file declares \<^verbatim>\<open>mod\<close> (line 52) and
  \<^verbatim>\<open>currentFilepath\<close> (line 102) with \<^verbatim>\<open>const\<close> and assigns to them afterwards (lines
  55 and 103). An assignment to a constant throws a \<^verbatim>\<open>TypeError\<close>, and the model has that
  error where the code has it: in \<open>resolveGlob\<close> for a pattern that starts with \<^verbatim>\<open>!\<close>, and
  in \<open>ownerLoop\<close> as soon as the first match fails and the loop condition goes on to
  its second operand. The declaration \<^verbatim>\<open>const glob;\<close> of line 101 has no initialiser and
  no meaning of its own; it is read as the declaration of the binding that line 103
  assigns, the one reading under which the function runs at all.

  The libraries the file calls (\<^verbatim>\<open>path\<close>, \<^verbatim>\<open>path-is-absolute\<close>, \<^verbatim>\<open>normalize-path\<close>,
  \<^verbatim>\<open>glob-parent\<close>, \<^verbatim>\<open>anymatch\<close>, \<^verbatim>\<open>process.cwd\<close>, the normalisation of \<^verbatim>\<open>vinyl\<close>) are not
  part of the repository. They are parameters of the model, collected in the record
  \<open>env\<close>; the watcher, the timer queue and the file system are the environment and
  appear as components of the state and as the inputs of the steps \<open>timerFires\<close> and
  \<open>readSettles\<close>.
\<close>

subsection \<open>Values\<close>

text \<open>The raw event kinds of the watcher, with the strings the source compares and logs.\<close>

datatype event = Add | Change | Unlink | AddDir | UnlinkDir | Error | Ready | Raw

fun event_name :: "event \<Rightarrow> string" where
  "event_name Add = ''add''"
| "event_name Change = ''change''"
| "event_name Unlink = ''unlink''"
| "event_name AddDir = ''addDir''"
| "event_name UnlinkDir = ''unlinkDir''"
| "event_name Error = ''error''"
| "event_name Ready = ''ready''"
| "event_name Raw = ''raw''"

text \<open>
  What a caller can pass as the \<^verbatim>\<open>globs\<close> argument. Of a number only being zero or not
  matters to the code (\<^verbatim>\<open>!globs\<close>), so numbers are integers plus \<open>JNaN\<close>; an array carries
  strings, the element type the pattern argument is documented with.
\<close>

datatype jsvalue =
    JUndefined
  | JNull
  | JBoolean bool
  | JNumber int
  | JNaN
  | JString string
  | JArray "string list"
  | JObject
  | JFunction

fun truthy :: "jsvalue \<Rightarrow> bool" where
  "truthy JUndefined = False"
| "truthy JNull = False"
| "truthy (JBoolean b) = b"
| "truthy (JNumber n) = (n \<noteq> 0)"
| "truthy JNaN = False"
| "truthy (JString s) = (s \<noteq> [])"
| "truthy (JArray xs) = True"
| "truthy JObject = True"
| "truthy JFunction = True"

fun typeof :: "jsvalue \<Rightarrow> string" where
  "typeof JUndefined = ''undefined''"
| "typeof JNull = ''object''"
| "typeof (JBoolean b) = ''boolean''"
| "typeof (JNumber n) = ''number''"
| "typeof JNaN = ''number''"
| "typeof (JString s) = ''string''"
| "typeof (JArray xs) = ''object''"
| "typeof JObject = ''object''"
| "typeof JFunction = ''function''"

text \<open>
  \<^verbatim>\<open>new PluginError(plugin, message)\<close>, the error the file constructs, and the
  \<^verbatim>\<open>TypeError\<close> of the language with its message.
\<close>

datatype error = PluginError string string | TypeError string

definition const_assignment :: error where
  "const_assignment = TypeError ''Assignment to constant variable.''"

subsection \<open>normalizeGlobs (lines 16-30)\<close>

definition normalizeGlobs :: "jsvalue \<Rightarrow> error + string list" where
  "normalizeGlobs globs =
     (if \<not> truthy globs then Inl (PluginError ''gulp-watch'' ''glob argument required'')
      else case globs of
          JString s \<Rightarrow> Inr [s]
        | JArray xs \<Rightarrow> Inr xs
        | _ \<Rightarrow> Inl (PluginError ''gulp-watch''
                  (''glob should be String or Array, not '' @ typeof globs)))"

subsection \<open>Options\<close>

text \<open>
  The options object after \<^verbatim>\<open>assign({}, watch._defaultOptions, opts)\<close>. A property that
  is absent is \<open>None\<close> (\<open>False\<close> for the flag \<^verbatim>\<open>verbose\<close>, which the code only tests).
\<close>

record options =
  cwd :: "string option"
  base :: "string option"
  events :: "event list"
  ignoreInitial :: bool
  readDelay :: nat
  verbose :: bool
  name :: "string option"

text \<open>The object a caller passes: every property may be absent.\<close>

record user_options =
  u_cwd :: "string option"
  u_base :: "string option"
  u_events :: "event list option"
  u_ignoreInitial :: "bool option"
  u_readDelay :: "nat option"
  u_verbose :: "bool option"
  u_name :: "string option"

definition no_options :: user_options where
  "no_options = \<lparr>u_cwd = None, u_base = None, u_events = None, u_ignoreInitial = None,
     u_readDelay = None, u_verbose = None, u_name = None\<rparr>"

text \<open>\<^verbatim>\<open>watch._defaultOptions\<close> (lines 170-174).\<close>

definition defaultOptions :: options where
  "defaultOptions = \<lparr>cwd = None, base = None, events = [Add, Change, Unlink],
     ignoreInitial = True, readDelay = 10, verbose = False, name = None\<rparr>"

definition or_else :: "'a option \<Rightarrow> 'a \<Rightarrow> 'a" where
  "or_else x d = (case x of Some v \<Rightarrow> v | None \<Rightarrow> d)"

text \<open>\<^verbatim>\<open>assign({}, defaults, opts)\<close>: a property of \<^verbatim>\<open>opts\<close> overrides the default.\<close>

definition assign :: "options \<Rightarrow> user_options \<Rightarrow> options" where
  "assign d u = \<lparr>
     cwd = (case u_cwd u of Some c \<Rightarrow> Some c | None \<Rightarrow> cwd d),
     base = (case u_base u of Some b \<Rightarrow> Some b | None \<Rightarrow> base d),
     events = or_else (u_events u) (events d),
     ignoreInitial = or_else (u_ignoreInitial u) (ignoreInitial d),
     readDelay = or_else (u_readDelay u) (readDelay d),
     verbose = or_else (u_verbose u) (verbose d),
     name = (case u_name u of Some n \<Rightarrow> Some n | None \<Rightarrow> name d)\<rparr>"

subsection \<open>The libraries, as parameters\<close>

text \<open>
  \<open>anymatch E gs p\<close> is \<^verbatim>\<open>anymatch(globs, p, true)\<close>: the index of the matcher that accepts
  the path, or \<open>-1\<close>. \<open>normalizePath\<close> is the package \<^verbatim>\<open>normalize-path\<close>, \<open>pathNormalize\<close>
  is \<^verbatim>\<open>path.normalize\<close>, and \<open>vinylNormalize\<close> is what a Vinyl file does to a path it
  is given as \<^verbatim>\<open>cwd\<close>, \<^verbatim>\<open>base\<close> or \<^verbatim>\<open>path\<close> (\<^verbatim>\<open>path.normalize\<close> without the trailing
  separator).
\<close>

record env =
  processCwd :: string
  pathIsAbsolute :: "string \<Rightarrow> bool"
  pathNormalize :: "string \<Rightarrow> string"
  pathResolve :: "string \<Rightarrow> string \<Rightarrow> string"
  pathDirname :: "string \<Rightarrow> string"
  pathRelative :: "string \<Rightarrow> string \<Rightarrow> string"
  normalizePath :: "string \<Rightarrow> string"
  globParent :: "string \<Rightarrow> string"
  anymatch :: "string list \<Rightarrow> string \<Rightarrow> int"
  vinylNormalize :: "string \<Rightarrow> string"

subsection \<open>resolveFilepath and resolveGlob (lines 44-61)\<close>

text \<open>\<^verbatim>\<open>opts.cwd || process.cwd()\<close>: an empty string is falsy.\<close>

definition cwd_or_process :: "env \<Rightarrow> options \<Rightarrow> string" where
  "cwd_or_process E opts =
     (case cwd opts of Some c \<Rightarrow> (if c \<noteq> [] then c else processCwd E) | None \<Rightarrow> processCwd E)"

definition resolveFilepath :: "env \<Rightarrow> options \<Rightarrow> string \<Rightarrow> string" where
  "resolveFilepath E opts filepath =
     (if pathIsAbsolute E filepath then pathNormalize E filepath
      else pathResolve E (cwd_or_process E opts) filepath)"

text \<open>A pattern that starts with the negation marker: \<^verbatim>\<open>glob[0] === '!'\<close>.\<close>

definition negated :: "string \<Rightarrow> bool" where
  "negated g = (case g of [] \<Rightarrow> False | c # _ \<Rightarrow> c = CHR ''!'')"

text \<open>
  \<^verbatim>\<open>resolveGlob\<close>. For a negated pattern line 55 assigns to the constant \<^verbatim>\<open>mod\<close> and
  throws; lines 56 and 59 are not reached. Any other pattern leaves \<^verbatim>\<open>mod\<close> empty.
\<close>

definition resolveGlob :: "env \<Rightarrow> options \<Rightarrow> string \<Rightarrow> error + string" where
  "resolveGlob E opts glob =
     (if negated glob then Inl const_assignment
      else Inr ([] @ normalizePath E (resolveFilepath E opts glob)))"

text \<open>\<^verbatim>\<open>globs.map(resolveGlob)\<close>: the first pattern that throws ends the map.\<close>

fun map_resolveGlob :: "env \<Rightarrow> options \<Rightarrow> string list \<Rightarrow> error + string list" where
  "map_resolveGlob E opts [] = Inr []"
| "map_resolveGlob E opts (glob # globs) =
     (case resolveGlob E opts glob of
        Inl e \<Rightarrow> Inl e
      | Inr g \<Rightarrow>
          (case map_resolveGlob E opts globs of
             Inl e \<Rightarrow> Inl e
           | Inr gs \<Rightarrow> Inr (g # gs)))"

text \<open>\<^verbatim>\<open>normalizeGlobs(globs).map(resolveGlob)\<close>, as in lines 34 and 61 and in lines 86-87.\<close>

definition resolvedGlobs :: "env \<Rightarrow> options \<Rightarrow> jsvalue \<Rightarrow> error + string list" where
  "resolvedGlobs E opts globs =
     (case normalizeGlobs globs of
        Inl e \<Rightarrow> Inl e
      | Inr gs \<Rightarrow> map_resolveGlob E opts gs)"

subsection \<open>File objects\<close>

text \<open>
  The options object handed to \<^verbatim>\<open>new File\<close> and to \<^verbatim>\<open>vinyl.read\<close>: the copy
  \<^verbatim>\<open>assign({}, opts)\<close> of line 99, whose \<^verbatim>\<open>base\<close> line 117 may overwrite, and the
  property \<^verbatim>\<open>path\<close> that line 122 adds.
\<close>

record fileOpts =
  fo_opts :: options
  fo_path :: "string option"

text \<open>
  A Vinyl file, with the properties the engine sets or reads. \<open>new_File\<close> is the
  constructor of \<^verbatim>\<open>vinyl\<close> on an options object with \<^verbatim>\<open>cwd\<close>, \<^verbatim>\<open>base\<close> and \<^verbatim>\<open>path\<close>, and
  on the \<^verbatim>\<open>stat\<close> and \<^verbatim>\<open>contents\<close> it may carry: the working directory is
  \<^verbatim>\<open>cwd || process.cwd()\<close>, the base is the working directory when none is given, and
  all three paths are normalised. Both callers give a path. \<open>relative\<close> is Vinyl's getter \<^verbatim>\<open>path.relative(this.base, this.path)\<close>.
\<close>

datatype stats = Stats nat

record vinyl =
  f_cwd :: string
  f_base :: string
  f_path :: string
  f_contents :: "string option"
  f_stat :: "stats option"
  f_event :: "event option"

definition truthy_string :: "string option \<Rightarrow> bool" where
  "truthy_string x = (case x of Some s \<Rightarrow> s \<noteq> [] | None \<Rightarrow> False)"

definition new_File :: "env \<Rightarrow> fileOpts \<Rightarrow> stats option \<Rightarrow> string option \<Rightarrow> vinyl" where
  "new_File E fo stat0 contents0 =
     (let cwd0 = cwd (fo_opts fo);
          base0 = base (fo_opts fo);
          c = vinylNormalize E (if truthy_string cwd0 then or_else cwd0 [] else processCwd E)
      in \<lparr>f_cwd = c,
          f_base = (if truthy_string base0 then vinylNormalize E (or_else base0 []) else c),
          f_path = vinylNormalize E (or_else (fo_path fo) []),
          f_contents = contents0, f_stat = stat0, f_event = None\<rparr>)"

definition relative :: "env \<Rightarrow> vinyl \<Rightarrow> string" where
  "relative E f = pathRelative E (f_base f) (f_path f)"

subsection \<open>The state of one watch session\<close>

text \<open>
  The per-file callback is a function of the caller; the model names it (\<open>UserFn k\<close>) and
  records each call of it with the file it is given. \<open>Noop\<close> is \<^verbatim>\<open>function () {}\<close> of
  line 42, whose call does nothing.
\<close>

datatype callback = UserFn nat | Noop

text \<open>The third argument of \<^verbatim>\<open>fancyLog.info\<close> at lines 106-112, without the versions.\<close>

record diagnostic =
  d_globs :: jsvalue
  d_filepath :: string
  d_event :: event
  d_cwd :: string
  d_opts :: options

datatype log_entry = Unexpected diagnostic | Saw "string list"

text \<open>What \<^verbatim>\<open>outputStream.emit\<close> is called with.\<close>

datatype emission = Mirror event string | EmitError string | EmitEnd

record read_request =
  rq_event :: event
  rq_filepath :: string
  rq_fileOpts :: fileOpts

text \<open>
  \<open>globs\<close>, \<open>opts\<close>, \<open>cb\<close>, \<open>baseForced\<close> and \<open>originalGlobs\<close> are the variables of the
  closure. \<open>watcherPaths\<close> is what the watcher was told to watch and \<open>watcherClosed\<close>
  whether \<^verbatim>\<open>watcher.close()\<close> was called; \<open>pushed\<close> are the files given to
  \<^verbatim>\<open>outputStream.push\<close>, \<open>cbCalls\<close> the calls of the caller's function, \<open>emitted\<close> the calls of
  \<^verbatim>\<open>outputStream.emit\<close>, \<open>fancyLog\<close> the calls of \<^verbatim>\<open>fancyLog.info\<close>, each in order.
  \<open>timers\<close> are the pending \<^verbatim>\<open>setTimeout\<close> callbacks of line 129 with their delay,
  \<open>reads\<close> the calls of \<^verbatim>\<open>vinyl.read\<close> that have not settled, and \<open>unhandled\<close> the
  rejections that no handler received.
\<close>

record state =
  originalGlobs :: jsvalue
  globs :: "string list"
  opts :: options
  cb :: callback
  baseForced :: bool
  watcherPaths :: "string list"
  watcherClosed :: bool
  pushed :: "vinyl list"
  cbCalls :: "(nat \<times> vinyl) list"
  emitted :: "emission list"
  fancyLog :: "log_entry list"
  timers :: "(nat \<times> read_request) list"
  reads :: "read_request list"
  unhandled :: "string list"

subsection \<open>watch (lines 32-95)\<close>

datatype opts_arg = NoOpts | OptsObject user_options | OptsFunction nat

text \<open>
  The constructor. \<^verbatim>\<open>baseForced\<close> is \<^verbatim>\<open>Boolean(opts.base)\<close>. An error of line 34 or of
  line 61 leaves the function before the stream and the watcher exist.
\<close>

definition watch :: "env \<Rightarrow> jsvalue \<Rightarrow> opts_arg \<Rightarrow> nat option \<Rightarrow> error + state" where
  "watch E globs0 opts0 cb0 =
     (case normalizeGlobs globs0 of
        Inl e \<Rightarrow> Inl e
      | Inr gs \<Rightarrow>
          let cb1 = (case opts0 of OptsFunction f \<Rightarrow> Some f | _ \<Rightarrow> cb0);
              opts1 = (case opts0 of OptsObject u \<Rightarrow> u | _ \<Rightarrow> no_options);
              opts2 = assign defaultOptions opts1;
              cb2 = (case cb1 of Some f \<Rightarrow> UserFn f | None \<Rightarrow> Noop)
          in case map_resolveGlob E opts2 gs of
               Inl e \<Rightarrow> Inl e
             | Inr globs1 \<Rightarrow>
                 Inr \<lparr>originalGlobs = globs0, globs = globs1, opts = opts2, cb = cb2,
                      baseForced = truthy_string (base opts2),
                      watcherPaths = globs1, watcherClosed = False,
                      pushed = [], cbCalls = [], emitted = [], fancyLog = [],
                      timers = [], reads = [], unhandled = []\<rparr>)"

text \<open>The call \<^verbatim>\<open>cb(file)\<close> of lines 67 and 148.\<close>

definition call_cb :: "state \<Rightarrow> vinyl \<Rightarrow> state" where
  "call_cb s f =
     (case cb s of
        Noop \<Rightarrow> s
      | UserFn k \<Rightarrow> s\<lparr>cbCalls := cbCalls s @ [(k, f)]\<rparr>)"

text \<open>\<^verbatim>\<open>outputStream._write\<close> (lines 66-70): the callback first, then the push.\<close>

definition write_in :: "state \<Rightarrow> vinyl \<Rightarrow> state" where
  "write_in s f = (let s1 = call_cb s f in s1\<lparr>pushed := pushed s1 @ [f]\<rparr>)"

text \<open>\<^verbatim>\<open>outputStream.add\<close> (lines 85-90).\<close>

definition add :: "env \<Rightarrow> state \<Rightarrow> jsvalue \<Rightarrow> error + state" where
  "add E s newGlobs =
     (case resolvedGlobs E (opts s) newGlobs of
        Inl e \<Rightarrow> Inl e
      | Inr ng \<Rightarrow> Inr (s\<lparr>watcherPaths := watcherPaths s @ ng, globs := globs s @ ng\<rparr>))"

text \<open>\<^verbatim>\<open>outputStream.close\<close> (lines 92-95).\<close>

definition close :: "state \<Rightarrow> state" where
  "close s = s\<lparr>watcherClosed := True, emitted := emitted s @ [EmitEnd]\<rparr>"

subsection \<open>log and write (lines 136-161)\<close>

text \<open>\<open>write_ev\<close> is the function \<^verbatim>\<open>write\<close> of line 136.\<close>

definition past_tense :: "string \<Rightarrow> string" where
  "past_tense ev = (if ev \<noteq> [] \<and> last ev = CHR ''e'' then ev @ ''d'' else ev @ ''ed'')"

definition log :: "env \<Rightarrow> state \<Rightarrow> event \<Rightarrow> vinyl \<Rightarrow> state" where
  "log E s ev f =
     (let msg = [relative E f, ''was'', past_tense (event_name ev)];
          msg1 = (if truthy_string (name (opts s))
                  then (or_else (name (opts s)) [] @ '' saw'') # msg else msg)
      in s\<lparr>fancyLog := fancyLog s @ [Saw msg1]\<rparr>)"

definition write_ev :: "env \<Rightarrow> state \<Rightarrow> event \<Rightarrow> string option \<Rightarrow> vinyl \<Rightarrow> state" where
  "write_ev E s ev err f =
     (case err of
        Some e \<Rightarrow> s\<lparr>emitted := emitted s @ [EmitError e]\<rparr>
      | None \<Rightarrow>
          let s1 = (if verbose (opts s) then log E s ev f else s);
              f1 = f\<lparr>f_event := Some ev\<rparr>
          in call_cb (s1\<lparr>pushed := pushed s1 @ [f1]\<rparr>) f1)"

subsection \<open>processEvent (lines 97-134)\<close>

text \<open>
  \<^verbatim>\<open>globs[i]\<close> as the loop condition tests it: \<^verbatim>\<open>undefined\<close> outside the array (so at
  \<open>-1\<close>), and an empty string is as falsy as \<^verbatim>\<open>undefined\<close>.
\<close>

definition globAt :: "string list \<Rightarrow> int \<Rightarrow> string option" where
  "globAt gs i =
     (if 0 \<le> i \<and> nat i < length gs \<and> gs ! nat i \<noteq> [] then Some (gs ! nat i) else None)"

text \<open>
  The loop of line 103. When the matcher selects a glob, the condition is false at its
  first operand and the loop leaves with that glob. Otherwise the second operand is
  evaluated: it calls \<^verbatim>\<open>path.dirname\<close> and assigns the result to the constant
  \<^verbatim>\<open>currentFilepath\<close>, which throws. The condition is evaluated once; no parent is ever
  matched, and the loop never leaves without a glob (the result \<open>Inr None\<close>, for which
  line 105 tests).
\<close>

definition ownerLoop :: "env \<Rightarrow> string list \<Rightarrow> string \<Rightarrow> error + string option" where
  "ownerLoop E gs currentFilepath =
     (case globAt gs (anymatch E gs currentFilepath) of
        Some glob \<Rightarrow> Inr (Some glob)
      | None \<Rightarrow> Inl const_assignment)"

text \<open>Lines 105-114: no glob was found. The report is logged and the event is left.\<close>

definition unexpected :: "env \<Rightarrow> state \<Rightarrow> event \<Rightarrow> string \<Rightarrow> state" where
  "unexpected E s ev filepath =
     s\<lparr>fancyLog := fancyLog s @
        [Unexpected \<lparr>d_globs = originalGlobs s, d_filepath = filepath, d_event = ev,
                     d_cwd = processCwd E, d_opts = opts s\<rparr>]\<rparr>"

text \<open>
  Lines 116-133, with the glob found: the base, then the file at once for a deletion, and a
  timer for the read otherwise. \<open>fileOpts0\<close> is the copy of line 99.
\<close>

definition owned :: "env \<Rightarrow> state \<Rightarrow> event \<Rightarrow> string \<Rightarrow> string \<Rightarrow> state" where
  "owned E s ev filepath glob =
     (let fileOpts0 = \<lparr>fo_opts = opts s, fo_path = None\<rparr>;
          fileOpts1 =
            (if \<not> baseForced s
             then fileOpts0\<lparr>fo_opts :=
                    (opts s)\<lparr>base := Some (pathNormalize E (globParent E glob))\<rparr>\<rparr>
             else fileOpts0)
      in if ev = Unlink \<or> ev = UnlinkDir
         then write_ev E s ev None
                (new_File E (fileOpts1\<lparr>fo_path := Some filepath\<rparr>) None None)
         else s\<lparr>timers := timers s @
                [(readDelay (opts s),
                  \<lparr>rq_event = ev, rq_filepath = filepath, rq_fileOpts = fileOpts1\<rparr>)]\<rparr>)"

definition processEvent :: "env \<Rightarrow> state \<Rightarrow> event \<Rightarrow> string \<Rightarrow> error + state" where
  "processEvent E s ev filepath0 =
     (let filepath = resolveFilepath E (opts s) filepath0
      in case ownerLoop E (globs s) filepath of
           Inl e \<Rightarrow> Inl e
         | Inr None \<Rightarrow> Inr (unexpected E s ev filepath)
         | Inr (Some glob) \<Rightarrow> Inr (owned E s ev filepath glob))"

subsection \<open>The environment's steps\<close>





text \<open>
  The watcher emits a raw event. Lines 76-78 register \<^verbatim>\<open>processEvent\<close> once for each entry
  of \<^verbatim>\<open>opts.events\<close>, lines 80-83 then the mirror onto the output stream; listeners run in
  the order of registration, and a listener that throws ends the emission.
\<close>

fun listeners :: "env \<Rightarrow> event list \<Rightarrow> state \<Rightarrow> event \<Rightarrow> string \<Rightarrow> error + state" where
  "listeners E [] s ev filepath = Inr s"
| "listeners E (e # es) s ev filepath =
     (if e = ev
      then (case processEvent E s ev filepath of
              Inl err \<Rightarrow> Inl err
            | Inr s1 \<Rightarrow> listeners E es s1 ev filepath)
      else listeners E es s ev filepath)"

definition watcherEmits :: "env \<Rightarrow> state \<Rightarrow> event \<Rightarrow> string \<Rightarrow> error + state" where
  "watcherEmits E s ev filepath =
     (case listeners E (events (opts s)) s ev filepath of
        Inl err \<Rightarrow> Inl err
      | Inr s1 \<Rightarrow> Inr (s1\<lparr>emitted := emitted s1 @ [Mirror ev filepath]\<rparr>))"

subsection \<open>An instance of the libraries for POSIX paths\<close>

text \<open>
  The general theorems hold for every \<open>env\<close>. To run the model on concrete inputs,
  \<open>posix\<close> instantiates the parameters for POSIX paths, in a simplified form that is
  enough for the paths used below: splitting at the slash, removing empty, \<^verbatim>\<open>.\<close> and
  \<^verbatim>\<open>..\<close> segments (a trailing slash is dropped), resolving a relative path from the given
  directory and that one from the working directory of the process, and a matcher for
  the wildcards \<^verbatim>\<open>*\<close> and \<^verbatim>\<open>**\<close> and for alternatives in braces that returns the index
  of the first pattern accepting the path, or \<open>-1\<close> when none does or a negated pattern
  accepts it. Character classes, \<^verbatim>\<open>?\<close> and nested braces are outside the instance.
\<close>

fun split_path :: "string \<Rightarrow> string list" where
  "split_path [] = [[]]"
| "split_path (c # cs) =
     (if c = CHR ''/'' then [] # split_path cs
      else (case split_path cs of [] \<Rightarrow> [[c]] | seg # segs \<Rightarrow> (c # seg) # segs))"

definition segments :: "string \<Rightarrow> string list" where
  "segments p = filter (\<lambda>seg. seg \<noteq> []) (split_path p)"

fun join_abs :: "string list \<Rightarrow> string" where
  "join_abs [] = ''/''"
| "join_abs [seg] = CHR ''/'' # seg"
| "join_abs (seg # segs) = CHR ''/'' # seg @ join_abs segs"

definition is_abs :: "string \<Rightarrow> bool" where
  "is_abs p = (case p of [] \<Rightarrow> False | c # _ \<Rightarrow> c = CHR ''/'')"

definition join_like :: "string \<Rightarrow> string list \<Rightarrow> string" where
  "join_like p segs =
     (if is_abs p then join_abs segs else if segs = [] then ''.'' else tl (join_abs segs))"

fun dot_segments :: "string list \<Rightarrow> string list \<Rightarrow> string list" where
  "dot_segments st [] = rev st"
| "dot_segments st (seg # segs) =
     (if seg = ''.'' then dot_segments st segs
      else if seg = ''..'' then dot_segments (tl st) segs
      else dot_segments (seg # st) segs)"

definition posix_normalize :: "string \<Rightarrow> string" where
  "posix_normalize p = join_like p (dot_segments [] (segments p))"

definition posix_resolve :: "string \<Rightarrow> string \<Rightarrow> string \<Rightarrow> string" where
  "posix_resolve wd b p =
     posix_normalize
       (if is_abs p then p
        else if is_abs b then b @ ''/'' @ p
        else wd @ ''/'' @ b @ ''/'' @ p)"

definition posix_dirname :: "string \<Rightarrow> string" where
  "posix_dirname p = join_like p (butlast (segments p))"

fun strip_common :: "string list \<Rightarrow> string list \<Rightarrow> string list" where
  "strip_common (b # bs) (q # qs) =
     (if b = q then strip_common bs qs else map (\<lambda>_. ''..'') (b # bs) @ (q # qs))"
| "strip_common bs qs = map (\<lambda>_. ''..'') bs @ qs"

definition posix_relative :: "string \<Rightarrow> string \<Rightarrow> string" where
  "posix_relative b p =
     (case strip_common (segments b) (segments p) of [] \<Rightarrow> [] | segs \<Rightarrow> tl (join_abs segs))"

definition unix_slashes :: "string \<Rightarrow> string" where
  "unix_slashes p =
     (let q = map (\<lambda>c. if c = CHR 0x5C then CHR ''/'' else c) p in join_like q (segments q))"

definition has_magic :: "string \<Rightarrow> bool" where
  "has_magic seg = (\<exists>c \<in> set seg. c \<in> set ''*?[]{}()!'')"

definition posix_globParent :: "string \<Rightarrow> string" where
  "posix_globParent g = join_like g (rev (dropWhile has_magic (rev (butlast (segments g)))))"

fun glob_match :: "string \<Rightarrow> string \<Rightarrow> bool" where
  "glob_match [] p = (p = [])"
| "glob_match (g # gs) [] = (g = CHR ''*'' \<and> glob_match gs [])"
| "glob_match (g # gs) (c # cs) =
     (if g = CHR ''*''
      then (case gs of
              [] \<Rightarrow> c \<noteq> CHR ''/'' \<and> glob_match (g # gs) cs
            | h # hs \<Rightarrow>
                if h = CHR ''*''
                then (case hs of
                        [] \<Rightarrow> True
                      | k # ks \<Rightarrow>
                          (if k = CHR ''/'' then glob_match ks (c # cs) else glob_match hs (c # cs))
                          \<or> glob_match (g # gs) cs)
                else glob_match gs (c # cs) \<or> (c \<noteq> CHR ''/'' \<and> glob_match (g # gs) cs))
      else g = c \<and> glob_match gs cs)"

text \<open>The alternatives of the first group in braces, and the rest of the pattern.\<close>

fun split_alts :: "string \<Rightarrow> string \<Rightarrow> (string list \<times> string) option" where
  "split_alts acc [] = None"
| "split_alts acc (c # cs) =
     (if c = CHR ''}'' then Some ([rev acc], cs)
      else if c = CHR '','' then
        (case split_alts [] cs of
           None \<Rightarrow> None
         | Some (alts, rest) \<Rightarrow> Some (rev acc # alts, rest))
      else split_alts (c # acc) cs)"

fun expand_braces :: "nat \<Rightarrow> string \<Rightarrow> string list" where
  "expand_braces 0 g = [g]"
| "expand_braces (Suc n) [] = [[]]"
| "expand_braces (Suc n) (c # cs) =
     (if c = CHR ''{'' then
        (case split_alts [] cs of
           None \<Rightarrow> map ((#) c) (expand_braces n cs)
         | Some (alts, rest) \<Rightarrow>
             concat (map (\<lambda>a. map (\<lambda>r. a @ r) (expand_braces n rest)) alts))
      else map ((#) c) (expand_braces n cs))"

definition accepts :: "string \<Rightarrow> string \<Rightarrow> bool" where
  "accepts g p = (g = p \<or> (\<exists>e \<in> set (expand_braces (length g) g). glob_match e p))"

fun first_index :: "('a \<Rightarrow> bool) \<Rightarrow> 'a list \<Rightarrow> int \<Rightarrow> int" where
  "first_index P [] i = - 1"
| "first_index P (x # xs) i = (if P x then i else first_index P xs (i + 1))"

definition posix_anymatch :: "string list \<Rightarrow> string \<Rightarrow> int" where
  "posix_anymatch gs p =
     (if \<exists>g \<in> set gs. negated g \<and> accepts (tl g) p then - 1
      else first_index (\<lambda>g. \<not> negated g \<and> accepts g p) gs 0)"

definition posix :: "string \<Rightarrow> env" where
  "posix wd = \<lparr>processCwd = wd, pathIsAbsolute = is_abs, pathNormalize = posix_normalize,
     pathResolve = posix_resolve wd, pathDirname = posix_dirname, pathRelative = posix_relative,
     normalizePath = unix_slashes, globParent = posix_globParent, anymatch = posix_anymatch,
     vinylNormalize = posix_normalize\<rparr>"

subsection \<open>The match at one path, and a session to run\<close>

text \<open>The match of line 103 at one path: the glob the matcher selects, if it is truthy.\<close>

definition matchAt :: "env \<Rightarrow> string list \<Rightarrow> string \<Rightarrow> string option" where
  "matchAt E gs p = globAt gs (anymatch E gs p)"


text \<open>
  The session \<^verbatim>\<open>watch('src/**/*.js')\<close> started in \<^verbatim>\<open>/proj\<close>, the read of
  \<^verbatim>\<open>/proj/src/a.js\<close> that an \<^verbatim>\<open>add\<close> event schedules in it, and the file this read
  resolves with for the contents \<^verbatim>\<open>x\<close>.
\<close>

definition proj :: env where
  "proj = posix ''/proj''"

definition session :: state where
  "session = \<lparr>originalGlobs = JString ''src/**/*.js'', globs = [''/proj/src/**/*.js''],
     opts = defaultOptions, cb = Noop, baseForced = False,
     watcherPaths = [''/proj/src/**/*.js''], watcherClosed = False,
     pushed = [], cbCalls = [], emitted = [], fancyLog = [],
     timers = [], reads = [], unhandled = []\<rparr>"


definition file_a :: vinyl where
  "file_a = \<lparr>f_cwd = ''/proj'', f_base = ''/proj/src'', f_path = ''/proj/src/a.js'',
     f_contents = Some ''x'', f_stat = Some (Stats 1), f_event = None\<rparr>"

section \<open>Running the session\<close>

lemma session_watch: "watch proj (JString ''src/**/*.js'') NoOpts None = Inr session"
  by code_simp


lemma processEvent_throws:
  "matchAt E (globs s) (resolveFilepath E (opts s) filepath) = None \<Longrightarrow>
   processEvent E s ev filepath = Inl const_assignment"
  by (simp add: processEvent_def ownerLoop_def matchAt_def)

text \<open>The lookup never ends without a glob: the branch of line 105 is not reached.\<close>

lemma ownerLoop_never_none: "ownerLoop E gs p \<noteq> Inr None"
  by (simp add: ownerLoop_def split: option.splits)

section \<open>Owner lookup\<close>

text \<open>
  Claim C1 at a failing input. The session watches \<^verbatim>\<open>/proj/lib\<close> and the watcher reports
  the deletion of \<^verbatim>\<open>lib/x.txt\<close>. No pattern matches the path itself; its parent
  \<^verbatim>\<open>/proj/lib\<close> would match. The loop condition of line 103 assigns the parent to the
  constant \<^verbatim>\<open>currentFilepath\<close>, so \<^verbatim>\<open>processEvent\<close> throws and the parent is never tried.
\<close>

theorem walk_throws:
  "matchAt proj [''/proj/lib''] ''/proj/lib/x.txt'' = None \<and>
   matchAt proj [''/proj/lib''] (pathDirname proj ''/proj/lib/x.txt'') = Some ''/proj/lib'' \<and>
   processEvent proj (session\<lparr>globs := [''/proj/lib'']\<rparr>) Unlink ''lib/x.txt'' =
     Inl (TypeError ''Assignment to constant variable.'')"
  by code_simp

section \<open>The pattern argument\<close>

lemma normalizeGlobs_JString: "s \<noteq> [] \<Longrightarrow> normalizeGlobs (JString s) = Inr [s]"
  by (simp add: normalizeGlobs_def)

lemma normalizeGlobs_JArray: "normalizeGlobs (JArray xs) = Inr xs"
  by (simp add: normalizeGlobs_def)

lemma normalizeGlobs_falsy:
  "\<not> truthy v \<Longrightarrow> normalizeGlobs v = Inl (PluginError ''gulp-watch'' ''glob argument required'')"
  by (simp add: normalizeGlobs_def)

lemma normalizeGlobs_wrong_type:
  "truthy v \<Longrightarrow> typeof v \<noteq> ''string'' \<Longrightarrow> \<forall>xs. v \<noteq> JArray xs \<Longrightarrow>
   normalizeGlobs v =
     Inl (PluginError ''gulp-watch'' (''glob should be String or Array, not '' @ typeof v))"
  by (cases v) (simp_all add: normalizeGlobs_def)

lemma watch_error: "normalizeGlobs v = Inl e \<Longrightarrow> watch E v oa c = Inl e"
  by (simp add: watch_def)

lemma map_resolveGlob_plain:
  "\<forall>g \<in> set gs. \<not> negated g \<Longrightarrow>
   map_resolveGlob E os gs = Inr (map (\<lambda>g. normalizePath E (resolveFilepath E os g)) gs)"
  by (induction gs) (simp_all add: resolveGlob_def)


text \<open>
  Claim C3 at a failing input. The pattern \<^verbatim>\<open>!src/x/**\<close> starts with the marker, line 55
  assigns to the constant \<^verbatim>\<open>mod\<close>, and \<^verbatim>\<open>resolveGlob\<close> throws: no pattern list is
  returned, neither by the constructor nor by \<^verbatim>\<open>add\<close>, and the marker is not kept.
\<close>

theorem negated_pattern_throws:
  "resolveGlob proj defaultOptions ''!src/x/**'' =
     Inl (TypeError ''Assignment to constant variable.'') \<and>
   resolvedGlobs proj defaultOptions (JString ''!src/x/**'') =
     Inl (TypeError ''Assignment to constant variable.'') \<and>
   watch proj (JArray [''src/*.js'', ''!src/x/**'']) NoOpts None =
     Inl (TypeError ''Assignment to constant variable.'') \<and>
   add proj session (JString ''!src/x/**'') =
     Inl (TypeError ''Assignment to constant variable.'')"
  by code_simp

text \<open>
  Claim C7, as stated, fails: an empty list is an empty argument and is accepted, and the
  number \<open>0\<close> is a wrong-typed argument and gets the message of the missing argument.
\<close>

theorem empty_list_accepted:
  "normalizeGlobs (JArray []) = Inr [] \<and>
   normalizeGlobs (JNumber 0) = Inl (PluginError ''gulp-watch'' ''glob argument required'') \<and>
   normalizeGlobs (JNumber 0) \<noteq>
     Inl (PluginError ''gulp-watch'' (''glob should be String or Array, not '' @ typeof (JNumber 0)))"
  by (simp add: normalizeGlobs_def)

text \<open>
  Claim C7, amended. \<^verbatim>\<open>normalizeGlobs\<close> throws for every falsy argument (absent, null,
  the empty string, \<open>0\<close>, NaN, \<^verbatim>\<open>false\<close>) the error \<^verbatim>\<open>glob argument required\<close>, and for
  every other argument that is neither a string nor a list the error
  \<^verbatim>\<open>glob should be String or Array, not <type>\<close>; the two errors differ. A list, also the
  empty one, is accepted. The error leaves \<^verbatim>\<open>watch\<close> and \<^verbatim>\<open>add\<close> as it is thrown, before
  anything else happens.
\<close>

theorem argument_errors:
  "(\<not> truthy v \<longrightarrow>
      normalizeGlobs v = Inl (PluginError ''gulp-watch'' ''glob argument required'')) \<and>
   (truthy v \<and> typeof v \<noteq> ''string'' \<and> (\<forall>xs. v \<noteq> JArray xs) \<longrightarrow>
      normalizeGlobs v =
        Inl (PluginError ''gulp-watch'' (''glob should be String or Array, not '' @ typeof v))) \<and>
   PluginError ''gulp-watch'' ''glob argument required'' \<noteq>
     PluginError ''gulp-watch'' (''glob should be String or Array, not '' @ t) \<and>
   normalizeGlobs (JArray xs) = Inr xs \<and>
   (normalizeGlobs v = Inl e \<longrightarrow> watch E v oa c = Inl e \<and> add E st v = Inl e)"
  by (simp add: normalizeGlobs_falsy normalizeGlobs_wrong_type normalizeGlobs_JArray
      watch_error add_def resolvedGlobs_def)

theorem argument_errors_witness:
  "normalizeGlobs JUndefined = Inl (PluginError ''gulp-watch'' ''glob argument required'') \<and>
   normalizeGlobs (JString []) = Inl (PluginError ''gulp-watch'' ''glob argument required'') \<and>
   normalizeGlobs (JNumber 123) =
     Inl (PluginError ''gulp-watch'' ''glob should be String or Array, not number'') \<and>
   watch proj JUndefined NoOpts None = Inl (PluginError ''gulp-watch'' ''glob argument required'') \<and>
   watch proj (JNumber 123) NoOpts None =
     Inl (PluginError ''gulp-watch'' ''glob should be String or Array, not number'')"
proof -
  have u: "\<not> truthy JUndefined" and e: "\<not> truthy (JString [])" by simp_all
  have n: "truthy (JNumber 123) \<and> typeof (JNumber 123) \<noteq> ''string'' \<and> (\<forall>xs. JNumber 123 \<noteq> JArray xs)"
    by simp
  have t: "''glob should be String or Array, not '' @ typeof (JNumber 123) = ''glob should be String or Array, not number''"
    by simp
  from argument_errors [of JUndefined _ _ _ proj NoOpts None] u
  have r1: "normalizeGlobs JUndefined = Inl (PluginError ''gulp-watch'' ''glob argument required'')"
    by blast
  from argument_errors [of "JString []"] e
  have r2: "normalizeGlobs (JString []) = Inl (PluginError ''gulp-watch'' ''glob argument required'')"
    by blast
  from argument_errors [of "JNumber 123"] n
  have r3: "normalizeGlobs (JNumber 123) =
     Inl (PluginError ''gulp-watch'' (''glob should be String or Array, not '' @ typeof (JNumber 123)))"
    by blast
  from argument_errors [of JUndefined _ _ "PluginError ''gulp-watch'' ''glob argument required''" proj NoOpts None] r1
  have r4: "watch proj JUndefined NoOpts None = Inl (PluginError ''gulp-watch'' ''glob argument required'')"
    by blast
  from argument_errors [of "JNumber 123" _ _ "PluginError ''gulp-watch'' ''glob should be String or Array, not number''" proj NoOpts None] r3
  have r5: "watch proj (JNumber 123) NoOpts None =
     Inl (PluginError ''gulp-watch'' ''glob should be String or Array, not number'')"
    unfolding t by blast
  from r1 r2 r3 r4 r5 show ?thesis unfolding t by simp
qed

section \<open>Unexpected paths\<close>

text \<open>
  Claim C5 at a failing input. The session watches \<^verbatim>\<open>src/**/*.js\<close> and the watcher
  reports \<^verbatim>\<open>other/c.js\<close>, which no pattern matches. The first match fails, the loop
  condition assigns to the constant \<^verbatim>\<open>currentFilepath\<close> and \<^verbatim>\<open>processEvent\<close> throws
  before line 105: nothing is logged, and the emission of the watcher ends with the
  error instead of going on.
\<close>

theorem unowned_event_throws:
  "matchAt proj (globs session) ''/proj/other/c.js'' = None \<and>
   processEvent proj session Add ''other/c.js'' =
     Inl (TypeError ''Assignment to constant variable.'') \<and>
   watcherEmits proj session Add ''other/c.js'' =
     Inl (TypeError ''Assignment to constant variable.'') \<and>
   fancyLog session = []"
  by code_simp

section \<open>Closing the stream\<close>




lemma write_ev_close: "write_ev E (close s) ev None f = close (write_ev E s ev None f)"
  by (cases "cb s") (simp_all add: write_ev_def log_def close_def Let_def call_cb_def)






lemma write_ev_pushed:
  "pushed (write_ev E s ev None f) = pushed s @ [f\<lparr>f_event := Some ev\<rparr>]"
  by (cases "cb s") (simp_all add: write_ev_def log_def Let_def call_cb_def)



section \<open>A read that fails\<close>



section \<open>The constructor and the callback\<close>

lemma assign_no_options: "assign defaultOptions no_options = defaultOptions"
  by (simp add: assign_def no_options_def defaultOptions_def or_else_def)

lemma watch_returns:
  "normalizeGlobs v = Inr gs \<Longrightarrow> \<forall>g \<in> set gs. \<not> negated g \<Longrightarrow> \<exists>st. watch E v oa c = Inr st"
  by (simp add: watch_def Let_def map_resolveGlob_plain)

lemma write_ev_cbCalls:
  "cbCalls (write_ev E s ev None f) =
     (case cb s of Noop \<Rightarrow> cbCalls s | UserFn k \<Rightarrow> cbCalls s @ [(k, f\<lparr>f_event := Some ev\<rparr>)])"
  by (cases "cb s") (simp_all add: write_ev_def log_def Let_def call_cb_def)


text \<open>
  Claim C10. When the second argument of \<^verbatim>\<open>watch\<close> is a function and the constructor
  returns, that function is the callback, whatever the third argument is, and the options
  are the defaults: the events add, change and unlink, \<^verbatim>\<open>ignoreInitial\<close> true and a read
  delay of 10. When the second argument is not a function, the callback is the third
  argument, and the no-op function when there is none. With the no-op function an
  emission, by \<^verbatim>\<open>write\<close> as by \<^verbatim>\<open>_write\<close>, pushes the file and calls nothing of the
  caller; with a function of the caller it pushes the file and calls that function with
  it. The constructor returns for every pattern argument that passes \<^verbatim>\<open>normalizeGlobs\<close>
  and holds no negated pattern.
\<close>

theorem callback_and_defaults:
  "(watch E v (OptsFunction f) c = Inr st1 \<longrightarrow>
      cb st1 = UserFn f \<and> opts st1 = defaultOptions \<and>
      events (opts st1) = [Add, Change, Unlink] \<and> ignoreInitial (opts st1) = True \<and>
      readDelay (opts st1) = 10) \<and>
   (watch E v oa None = Inr st2 \<and> (\<forall>h. oa \<noteq> OptsFunction h) \<longrightarrow> cb st2 = Noop) \<and>
   (watch E v oa (Some f) = Inr st3 \<and> (\<forall>h. oa \<noteq> OptsFunction h) \<longrightarrow> cb st3 = UserFn f) \<and>
   (normalizeGlobs v = Inr gs \<and> (\<forall>g \<in> set gs. \<not> negated g) \<longrightarrow>
      (\<exists>st. watch E v oa c = Inr st)) \<and>
   pushed (write_ev E s ev None x) = pushed s @ [x\<lparr>f_event := Some ev\<rparr>] \<and>
   pushed (write_in s x) = pushed s @ [x] \<and>
   (cb s = Noop \<longrightarrow>
      cbCalls (write_ev E s ev None x) = cbCalls s \<and> cbCalls (write_in s x) = cbCalls s) \<and>
   (cb s = UserFn k \<longrightarrow>
      cbCalls (write_ev E s ev None x) = cbCalls s @ [(k, x\<lparr>f_event := Some ev\<rparr>)] \<and>
      cbCalls (write_in s x) = cbCalls s @ [(k, x)])"
proof -
  have a: "watch E v (OptsFunction f) c = Inr st1 \<longrightarrow>
      cb st1 = UserFn f \<and> opts st1 = defaultOptions \<and>
      events (opts st1) = [Add, Change, Unlink] \<and> ignoreInitial (opts st1) = True \<and>
      readDelay (opts st1) = 10"
    by (auto simp add: watch_def Let_def assign_no_options split: sum.splits)
       (simp_all add: defaultOptions_def)
  have b: "watch E v oa None = Inr st2 \<and> (\<forall>h. oa \<noteq> OptsFunction h) \<longrightarrow> cb st2 = Noop"
    by (cases oa) (auto simp add: watch_def Let_def split: sum.splits)
  have c: "watch E v oa (Some f) = Inr st3 \<and> (\<forall>h. oa \<noteq> OptsFunction h) \<longrightarrow> cb st3 = UserFn f"
    by (cases oa) (auto simp add: watch_def Let_def split: sum.splits)
  have d: "normalizeGlobs v = Inr gs \<and> (\<forall>g \<in> set gs. \<not> negated g) \<longrightarrow>
      (\<exists>st. watch E v oa c = Inr st)"
    using watch_returns by blast
  have e: "pushed (write_in s x) = pushed s @ [x]"
    "cb s = Noop \<longrightarrow> cbCalls (write_in s x) = cbCalls s"
    "cb s = UserFn k \<longrightarrow> cbCalls (write_in s x) = cbCalls s @ [(k, x)]"
    by (cases "cb s"; simp add: write_in_def call_cb_def Let_def)+
  have g: "pushed (write_ev E s ev None x) = pushed s @ [x\<lparr>f_event := Some ev\<rparr>]"
    "cb s = Noop \<longrightarrow> cbCalls (write_ev E s ev None x) = cbCalls s"
    "cb s = UserFn k \<longrightarrow>
       cbCalls (write_ev E s ev None x) = cbCalls s @ [(k, x\<lparr>f_event := Some ev\<rparr>)]"
    by (simp_all add: write_ev_pushed write_ev_cbCalls)
  from a b c d e g show ?thesis by blast
qed

theorem callback_and_defaults_witness:
  "(\<exists>st. watch proj (JString ''src/**/*.js'') (OptsFunction 7) None = Inr st \<and> cb st = UserFn 7 \<and>
        opts st = defaultOptions) \<and>
   (\<exists>st. watch proj (JString ''src/**/*.js'') NoOpts None = Inr st \<and> cb st = Noop) \<and>
   (\<exists>st. watch proj (JString ''src/**/*.js'') NoOpts (Some 7) = Inr st \<and> cb st = UserFn 7) \<and>
   cbCalls (write_ev proj session Add None file_a) = [] \<and>
   cbCalls (write_ev proj (session\<lparr>cb := UserFn 7\<rparr>) Add None file_a) =
     [(7, file_a\<lparr>f_event := Some Add\<rparr>)]"
proof -
  let ?v = "JString ''src/**/*.js''"
  have n: "normalizeGlobs ?v = Inr [''src/**/*.js''] \<and> (\<forall>g \<in> set [''src/**/*.js'']. \<not> negated g)"
    by code_simp
  have o: "\<forall>h. NoOpts \<noteq> OptsFunction h" by simp
  have k: "cb session = Noop" "cb (session\<lparr>cb := UserFn 7\<rparr>) = UserFn 7"
    "cbCalls session = []" "cbCalls (session\<lparr>cb := UserFn 7\<rparr>) = []"
    by code_simp+
  obtain t1 where t1: "watch proj ?v (OptsFunction 7) None = Inr t1"
    using callback_and_defaults [where v = ?v and gs = "[''src/**/*.js'']" and E = proj
        and oa = "OptsFunction 7" and c = None] n by blast
  obtain t2 where t2: "watch proj ?v NoOpts None = Inr t2"
    using callback_and_defaults [where v = ?v and gs = "[''src/**/*.js'']" and E = proj
        and oa = NoOpts and c = None] n by blast
  obtain t3 where t3: "watch proj ?v NoOpts (Some 7) = Inr t3"
    using callback_and_defaults [where v = ?v and gs = "[''src/**/*.js'']" and E = proj
        and oa = NoOpts and c = "Some 7"] n by blast
  from callback_and_defaults [where E = proj and v = ?v and f = 7 and c = None and ?st1.0 = t1] t1
  have r1: "cb t1 = UserFn 7 \<and> opts t1 = defaultOptions" by blast
  from callback_and_defaults [where E = proj and v = ?v and oa = NoOpts and ?st2.0 = t2] t2 o
  have r2: "cb t2 = Noop" by blast
  from callback_and_defaults [where E = proj and v = ?v and oa = NoOpts and f = 7 and ?st3.0 = t3] t3 o
  have r3: "cb t3 = UserFn 7" by blast
  from callback_and_defaults [where E = proj and s = session and ev = Add and x = file_a] k
  have r4: "cbCalls (write_ev proj session Add None file_a) = []" by simp
  from callback_and_defaults [where E = proj and s = "session\<lparr>cb := UserFn 7\<rparr>" and ev = Add
      and x = file_a and k = 7] k
  have r5: "cbCalls (write_ev proj (session\<lparr>cb := UserFn 7\<rparr>) Add None file_a) =
     [(7, file_a\<lparr>f_event := Some Add\<rparr>)]" by simp
  from t1 t2 t3 r1 r2 r3 r4 r5 show ?thesis by blast
qed

section \<open>Owned events\<close>















section \<open>Adding patterns\<close>








end
